theory Spec2Isabelle
  imports Main "HOL-Library.Word"
begin

section \<open>Data model of package comparator\<close>

text \<open>
  \<^verbatim>\<open>type DiffType int8\<close> with the constants \<^verbatim>\<open>Delete DiffType = -1\<close> and
  \<^verbatim>\<open>Insert DiffType = 1\<close>.
\<close>

type_synonym DiffType = "8 word"

definition Delete :: DiffType where
  "Delete = - 1"

definition Insert :: DiffType where
  "Insert = 1"

text \<open>\<^verbatim>\<open>type Diff struct { Text string; Type DiffType }\<close>. A Go string is a byte sequence.\<close>

record Diff =
  Text :: string
  Type :: DiffType

text \<open>
  A Go \<^verbatim>\<open>error\<close> value. The package reads an error only through its \<^verbatim>\<open>Error()\<close> text
  and builds one only with \<^verbatim>\<open>errors.New\<close>; a nil error is \<open>None\<close> of \<open>error option\<close>.
\<close>

datatype error = errors_New (Error: string)

text \<open>A run-time panic of the Go program; the only one the package can raise itself.\<close>

datatype panic = slice_bounds_out_of_range

text \<open>
  The part of \<^verbatim>\<open>*http.Response\<close> the package reads: the status text, and the body, given
  as what \<^verbatim>\<open>ioutil.ReadAll\<close> returns on it (the bytes, or the read error).
\<close>

record Response =
  Status :: string
  Body :: "error + string"

section \<open>Functions of the Go standard library used by the package\<close>

text \<open>\<^verbatim>\<open>strings.HasPrefix(s, prefix)\<close>: \<^verbatim>\<open>len(s) >= len(prefix) && s[0:len(prefix)] == prefix\<close>.\<close>

definition HasPrefix :: "string \<Rightarrow> string \<Rightarrow> bool" where
  "HasPrefix s pre = (length pre \<le> length s \<and> take (length pre) s = pre)"

text \<open>
  \<^verbatim>\<open>strings.LastIndex(s, substr)\<close>: the index of the last instance of \<^verbatim>\<open>substr\<close> in
  \<^verbatim>\<open>s\<close>, or \<^verbatim>\<open>-1\<close> when there is none.
\<close>

fun LastIndex :: "string \<Rightarrow> string \<Rightarrow> int" where
  "LastIndex [] substr = (if substr = [] then 0 else - 1)"
| "LastIndex (c # cs) substr =
     (let r = LastIndex cs substr in
      if 0 \<le> r then r + 1
      else if HasPrefix (c # cs) substr then 0
      else - 1)"

text \<open>
  The slice expression \<^verbatim>\<open>s[lo:hi]\<close> on a string: it panics unless
  \<^verbatim>\<open>0 <= lo <= hi <= len(s)\<close>.
\<close>

definition slice :: "string \<Rightarrow> int \<Rightarrow> int \<Rightarrow> panic + string" where
  "slice s lo hi =
     (if 0 \<le> lo \<and> lo \<le> hi \<and> hi \<le> int (length s)
      then Inr (take (nat hi - nat lo) (drop (nat lo) s))
      else Inl slice_bounds_out_of_range)"

text \<open>
  \<^verbatim>\<open>strings.Replace(s, old, new, 1)\<close>: the first instance of \<^verbatim>\<open>old\<close> replaced by
  \<^verbatim>\<open>new\<close>; \<^verbatim>\<open>s\<close> itself when there is none.
\<close>

fun Replace1 :: "string \<Rightarrow> string \<Rightarrow> string \<Rightarrow> string" where
  "Replace1 [] old new = (if old = [] then new else [])"
| "Replace1 (c # cs) old new =
     (if HasPrefix (c # cs) old then new @ drop (length old) (c # cs)
      else c # Replace1 cs old new)"

text \<open>\<^verbatim>\<open>strings.Split(s, sep)\<close> for a separator of one byte, as in \<^verbatim>\<open>Split(diffString, "\n")\<close>.\<close>

fun Split :: "string \<Rightarrow> char \<Rightarrow> string list" where
  "Split [] sep = [[]]"
| "Split (c # cs) sep =
     (if c = sep then [] # Split cs sep
      else (case Split cs sep of
              [] \<Rightarrow> [[c]]
            | x # xs \<Rightarrow> (c # x) # xs))"

section \<open>trimErrorHost\<close>

text \<open>
  \<^verbatim>\<open>errText := err.Error()
  errWithoutHost := errText[strings.LastIndex(errText, ":"):len(errText)]
  return errors.New(errWithoutHost)\<close>
\<close>

definition trimErrorHost :: "error \<Rightarrow> panic + error" where
  "trimErrorHost err =
     (let errText = Error err in
      case slice errText (LastIndex errText '':'') (int (length errText)) of
        Inl p \<Rightarrow> Inl p
      | Inr errWithoutHost \<Rightarrow> Inr (errors_New errWithoutHost))"

section \<open>getDiffsFromStrings\<close>

text \<open>The \<^verbatim>\<open>for _, line := range lines\<close> loop, with \<^verbatim>\<open>diffs\<close> as its state.\<close>

fun getDiffsFromStrings_loop :: "Diff list \<Rightarrow> string list \<Rightarrow> Diff list" where
  "getDiffsFromStrings_loop diffs [] = diffs"
| "getDiffsFromStrings_loop diffs (line # lines) =
     (if HasPrefix line ''+'' then
        getDiffsFromStrings_loop
          (diffs @ [\<lparr>Text = Replace1 line ''+'' '''', Type = Insert\<rparr>]) lines
      else if HasPrefix line ''-'' then
        getDiffsFromStrings_loop
          (diffs @ [\<lparr>Text = Replace1 line ''-'' '''', Type = Delete\<rparr>]) lines
      else getDiffsFromStrings_loop diffs lines)"

definition getDiffsFromStrings :: "string list \<Rightarrow> Diff list" where
  "getDiffsFromStrings lines = getDiffsFromStrings_loop [] lines"

section \<open>The third-party libraries, as parameters\<close>

text \<open>
  The package calls three libraries whose code is not part of it. Each is a parameter of
  the functions below: a record of the library functions the package calls, so that every
  theorem holds for whatever these functions compute.
\<close>

text \<open>
  \<^verbatim>\<open>diffmatchpatch\<close>: \<^verbatim>\<open>type Operation int8\<close> with \<^verbatim>\<open>DiffDelete = -1\<close>,
  \<^verbatim>\<open>DiffInsert = 1\<close>, \<^verbatim>\<open>DiffEqual = 0\<close>, and
  \<^verbatim>\<open>type Diff struct { Type Operation; Text string }\<close>.
\<close>

datatype Operation = DiffDelete | DiffInsert | DiffEqual

record dmp_Diff =
  dmp_Type :: Operation
  dmp_Text :: string

text \<open>The methods of \<^verbatim>\<open>textDiffer *diffmatchpatch.DiffMatchPatch\<close> that are called.\<close>

record DiffMatchPatch =
  DiffMain :: "string \<Rightarrow> string \<Rightarrow> bool \<Rightarrow> dmp_Diff list"
  DiffCleanupSemantic :: "dmp_Diff list \<Rightarrow> dmp_Diff list"

text \<open>
  The JSON side: \<^verbatim>\<open>jsonDiffer.Compare(aBody, bBody)\<close> of \<^verbatim>\<open>gojsondiff\<close> (a diff \<open>'d\<close> or
  an error), \<^verbatim>\<open>json.Unmarshal(aBody, &aJSON)\<close> (the value \<open>'j\<close> of \<^verbatim>\<open>aJSON\<close> after the
  call, whose error the package ignores), and
  \<^verbatim>\<open>formatter.NewAsciiFormatter(aJSON).Format(diff)\<close>.
\<close>

record ('j, 'd) JSONLib =
  Differ_Compare :: "string \<Rightarrow> string \<Rightarrow> error + 'd"
  Unmarshal :: "string \<Rightarrow> 'j"
  Format :: "'j \<Rightarrow> 'd \<Rightarrow> error + string"

text \<open>
  \<^verbatim>\<open>goquery\<close>: \<^verbatim>\<open>NewDocumentFromResponse\<close>, \<^verbatim>\<open>Find\<close> on a document, and \<^verbatim>\<open>Text\<close> on
  the selection found. \<^verbatim>\<open>Length\<close> (the number of elements in a selection) is not called by
  the package; it is here to say that a selector matched nothing.
\<close>

record ('doc, 'sel) GoQuery =
  NewDocumentFromResponse :: "Response \<Rightarrow> error + 'doc"
  Find :: "'doc \<Rightarrow> string \<Rightarrow> 'sel"
  Selection_Text :: "'sel \<Rightarrow> string"
  Selection_Length :: "'sel \<Rightarrow> nat"

section \<open>compareStrings\<close>

text \<open>The \<^verbatim>\<open>for _, element := range diffs\<close> loop, with \<^verbatim>\<open>result\<close> as its state.\<close>

fun compareStrings_loop :: "Diff list \<Rightarrow> dmp_Diff list \<Rightarrow> Diff list" where
  "compareStrings_loop result [] = result"
| "compareStrings_loop result (element # diffs) =
     (if dmp_Type element = DiffInsert then
        compareStrings_loop (result @ [\<lparr>Text = dmp_Text element, Type = Insert\<rparr>]) diffs
      else if dmp_Type element = DiffDelete then
        compareStrings_loop (result @ [\<lparr>Text = dmp_Text element, Type = Delete\<rparr>]) diffs
      else compareStrings_loop result diffs)"

definition compareStrings :: "DiffMatchPatch \<Rightarrow> string \<Rightarrow> string \<Rightarrow> Diff list" where
  "compareStrings textDiffer aString bString =
     (let diffs = DiffMain textDiffer aString bString True;
          diffs = DiffCleanupSemantic textDiffer diffs
      in compareStrings_loop [] diffs)"

section \<open>compareJSONs\<close>

text \<open>
  A Go result \<^verbatim>\<open>([]Diff, error)\<close> is a pair; the nil slice is the empty list and the nil
  error is \<open>None\<close>. Every \<^verbatim>\<open>return nil, err\<close> of the source is \<open>([], Some err)\<close>.
\<close>

definition compareJSONs ::
  "('j, 'd) JSONLib \<Rightarrow> Response \<Rightarrow> Response \<Rightarrow> Diff list \<times> error option" where
  "compareJSONs jsonLib aResp bResp =
     (case Body aResp of
        Inl err \<Rightarrow> ([], Some err)
      | Inr aBody \<Rightarrow>
     (case Body bResp of
        Inl err \<Rightarrow> ([], Some err)
      | Inr bBody \<Rightarrow>
     (case Differ_Compare jsonLib aBody bBody of
        Inl err \<Rightarrow> ([], Some err)
      | Inr diff \<Rightarrow>
     (let aJSON = Unmarshal jsonLib aBody in
      case Format jsonLib aJSON diff of
        Inl err \<Rightarrow> ([], Some err)
      | Inr diffString \<Rightarrow>
          (let lines = Split diffString (CHR 0x0A)
           in (getDiffsFromStrings lines, None))))))"

section \<open>compareHTMLs\<close>

text \<open>The \<^verbatim>\<open>for _, element := range compareElements\<close> loop, with \<^verbatim>\<open>result\<close> as its state.\<close>

fun compareHTMLs_loop ::
  "DiffMatchPatch \<Rightarrow> ('doc, 'sel) GoQuery \<Rightarrow> 'doc \<Rightarrow> 'doc \<Rightarrow> Diff list \<Rightarrow> string list \<Rightarrow> Diff list"
  where
  "compareHTMLs_loop textDiffer gq aDoc bDoc result [] = result"
| "compareHTMLs_loop textDiffer gq aDoc bDoc result (element # compareElements) =
     (let aElement = Find gq aDoc element;
          bElement = Find gq bDoc element
      in compareHTMLs_loop textDiffer gq aDoc bDoc
           (result @ compareStrings textDiffer
              (Selection_Text gq aElement) (Selection_Text gq bElement))
           compareElements)"

definition compareHTMLs ::
  "DiffMatchPatch \<Rightarrow> ('doc, 'sel) GoQuery \<Rightarrow> Response \<Rightarrow> Response \<Rightarrow> string list
     \<Rightarrow> Diff list \<times> error option" where
  "compareHTMLs textDiffer gq aResp bResp compareElements =
     (case NewDocumentFromResponse gq aResp of
        Inl err \<Rightarrow> ([], Some err)
      | Inr aDoc \<Rightarrow>
     (case NewDocumentFromResponse gq bResp of
        Inl err \<Rightarrow> ([], Some err)
      | Inr bDoc \<Rightarrow>
          (compareHTMLs_loop textDiffer gq aDoc bDoc [] compareElements, None)))"

section \<open>Compare\<close>

text \<open>
  \<^verbatim>\<open>Compare(aURL, bURL, compareElements)\<close> reads its two URLs only in
  \<^verbatim>\<open>http.Get(aURL)\<close> and \<^verbatim>\<open>http.Get(bURL)\<close>. The model takes the outcomes of these two
  calls in their place: \<open>Inl aErr\<close> where \<^verbatim>\<open>aErr != nil\<close>, \<open>Inr aResp\<close> where
  \<^verbatim>\<open>aErr == nil\<close>. The slice \<^verbatim>\<open>compareElements\<close> is \<open>None\<close> when nil and \<open>Some\<close> of its
  elements otherwise, since the source tests \<^verbatim>\<open>compareElements == nil\<close>. The equations
  follow the source's four tests in their order; a panic of trimErrorHost ends the call.
\<close>

fun Compare ::
  "DiffMatchPatch \<Rightarrow> ('j, 'd) JSONLib \<Rightarrow> ('doc, 'sel) GoQuery
     \<Rightarrow> error + Response \<Rightarrow> error + Response \<Rightarrow> string list option
     \<Rightarrow> panic + (Diff list \<times> error option)" where
  "Compare textDiffer jsonLib gq (Inl aErr) (Inr bResp) compareElements =
     (case trimErrorHost aErr of
        Inl p \<Rightarrow> Inl p
      | Inr err \<Rightarrow>
          Inr ([\<lparr>Text = Error err, Type = Delete\<rparr>, \<lparr>Text = Status bResp, Type = Insert\<rparr>],
               None))"
| "Compare textDiffer jsonLib gq (Inr aResp) (Inl bErr) compareElements =
     (case trimErrorHost bErr of
        Inl p \<Rightarrow> Inl p
      | Inr err \<Rightarrow>
          Inr ([\<lparr>Text = Status aResp, Type = Delete\<rparr>, \<lparr>Text = Error err, Type = Insert\<rparr>],
               None))"
| "Compare textDiffer jsonLib gq (Inl aErr) (Inl bErr) compareElements =
     (case trimErrorHost aErr of
        Inl p \<Rightarrow> Inl p
      | Inr aError \<Rightarrow>
     (case trimErrorHost bErr of
        Inl p \<Rightarrow> Inl p
      | Inr bError \<Rightarrow>
          Inr (compareStrings textDiffer (Error aError) (Error bError), None)))"
| "Compare textDiffer jsonLib gq (Inr aResp) (Inr bResp) None =
     Inr (compareJSONs jsonLib aResp bResp)"
| "Compare textDiffer jsonLib gq (Inr aResp) (Inr bResp) (Some elements) =
     Inr (compareHTMLs textDiffer gq aResp bResp elements)"

section \<open>The specification's reference for error trimming\<close>

text \<open>
  The specification's words for the trimmed message: the substring starting at, and
  including, the last \<open>:\<close> of the message; and the message unchanged where it has no \<open>:\<close>.
  \<open>from_last c s\<close> is the first of the two, for a string \<open>s\<close> in which \<open>c\<close> occurs.
\<close>

definition from_last :: "char \<Rightarrow> string \<Rightarrow> string" where
  "from_last c s = c # rev (takeWhile (\<lambda>x. x \<noteq> c) (rev s))"

definition trim_reference :: "string \<Rightarrow> string" where
  "trim_reference s = (if CHR '':'' \<in> set s then from_last (CHR '':'') s else s)"

section \<open>Concrete libraries for instantiating the theorems\<close>

text \<open>
  Small instances of the three library records, used only where a theorem about every
  library is applied at a concrete input. \<open>whole_text_differ\<close> reports two different
  texts as the deletion of the first and the insertion of the second (leaving out an
  empty one), and equal non-empty texts as one equal fragment; \<open>fixed_json\<close> renders every diff as the text \<open>d\<close>; \<open>no_match_query\<close> parses
  every response and matches no element.
\<close>

abbreviation whole_text_differ :: DiffMatchPatch where
  "whole_text_differ \<equiv>
     \<lparr>DiffMain = (\<lambda>a b checklines.
          if a = b then (if a = [] then [] else [\<lparr>dmp_Type = DiffEqual, dmp_Text = a\<rparr>])
          else (if a = [] then [] else [\<lparr>dmp_Type = DiffDelete, dmp_Text = a\<rparr>])
             @ (if b = [] then [] else [\<lparr>dmp_Type = DiffInsert, dmp_Text = b\<rparr>])),
      DiffCleanupSemantic = (\<lambda>diffs. diffs)\<rparr>"

abbreviation fixed_json :: "string \<Rightarrow> (unit, unit) JSONLib" where
  "fixed_json d \<equiv>
     \<lparr>Differ_Compare = (\<lambda>a b. Inr ()), Unmarshal = (\<lambda>a. ()), Format = (\<lambda>j diff. Inr d)\<rparr>"

abbreviation no_match_query :: "(unit, unit) GoQuery" where
  "no_match_query \<equiv>
     \<lparr>NewDocumentFromResponse = (\<lambda>resp. Inr ()), Find = (\<lambda>doc selector. ()),
      Selection_Text = (\<lambda>sel. []), Selection_Length = (\<lambda>sel. 0)\<rparr>"

text \<open>
  \<open>one_title_query\<close> reads a response body as the text of the page's only \<open>h1\<close> element:
  the selector \<open>h1\<close> matches that element unless the body is empty, and no other selector
  matches anything. \<open>object_json\<close> reports an error for a body that does not start with
  \<open>{\<close> and renders every diff as the text \<open>d\<close>.
\<close>

abbreviation one_title_query :: "(string, string list) GoQuery" where
  "one_title_query \<equiv>
     \<lparr>NewDocumentFromResponse = (\<lambda>resp. Body resp),
      Find = (\<lambda>doc selector. if selector = ''h1'' \<and> doc \<noteq> [] then [doc] else []),
      Selection_Text = concat, Selection_Length = length\<rparr>"

abbreviation starts_with_brace :: "string \<Rightarrow> bool" where
  "starts_with_brace body \<equiv> HasPrefix body ''{''"

abbreviation object_json :: "string \<Rightarrow> (unit, unit) JSONLib" where
  "object_json d \<equiv>
     \<lparr>Differ_Compare = (\<lambda>a b. if starts_with_brace a \<and> starts_with_brace b then Inr ()
                               else Inl (errors_New ''invalid character'')),
      Unmarshal = (\<lambda>a. ()), Format = (\<lambda>j diff. Inr d)\<rparr>"

section \<open>Basic facts\<close>

lemma Delete_neq_Insert: "Delete \<noteq> Insert"
  by (simp add: Delete_def Insert_def)

lemma HasPrefix_single: "HasPrefix s [c] \<longleftrightarrow> (\<exists>rest. s = c # rest)"
  by (cases s) (auto simp: HasPrefix_def)

lemma Replace1_leading: "Replace1 (c # rest) [c] [] = rest"
  by (simp add: HasPrefix_def)

lemma getDiffsFromStrings_loop_append:
  "getDiffsFromStrings_loop diffs lines = diffs @ getDiffsFromStrings_loop [] lines"
proof (induction lines arbitrary: diffs)
  case Nil
  show ?case by simp
next
  case (Cons line lines)
  show ?case
    using Cons.IH [of "diffs @ [\<lparr>Text = Replace1 line ''+'' '''', Type = Insert\<rparr>]"]
      Cons.IH [of "diffs @ [\<lparr>Text = Replace1 line ''-'' '''', Type = Delete\<rparr>]"]
      Cons.IH [of "[\<lparr>Text = Replace1 line ''+'' '''', Type = Insert\<rparr>]"]
      Cons.IH [of "[\<lparr>Text = Replace1 line ''-'' '''', Type = Delete\<rparr>]"]
      Cons.IH [of diffs]
    by simp
qed

lemma getDiffsFromStrings_Cons:
  "getDiffsFromStrings (line # lines) =
     (if HasPrefix line ''+'' then \<lparr>Text = tl line, Type = Insert\<rparr> # getDiffsFromStrings lines
      else if HasPrefix line ''-'' then \<lparr>Text = tl line, Type = Delete\<rparr> # getDiffsFromStrings lines
      else getDiffsFromStrings lines)"
proof -
  have plus: "HasPrefix line ''+'' \<Longrightarrow> Replace1 line ''+'' '''' = tl line"
    by (auto simp: HasPrefix_single)
  have minus: "HasPrefix line ''-'' \<Longrightarrow> Replace1 line ''-'' '''' = tl line"
    by (auto simp: HasPrefix_single)
  show ?thesis
    unfolding getDiffsFromStrings_def
    by (simp add: plus minus getDiffsFromStrings_loop_append [of "[d]" for d])
qed

lemma getDiffsFromStrings_Nil: "getDiffsFromStrings [] = []"
  by (simp add: getDiffsFromStrings_def)

subsection \<open>trimErrorHost\<close>

lemma LastIndex_absent: "c \<notin> set s \<Longrightarrow> LastIndex s [c] = - 1"
  by (induction s) (auto simp: HasPrefix_def)

lemma LastIndex_last: "c \<notin> set suf \<Longrightarrow> LastIndex (pre @ c # suf) [c] = int (length pre)"
  by (induction pre) (auto simp: HasPrefix_def LastIndex_absent Let_def)

lemma from_last_split:
  assumes "c \<notin> set suf"
  shows "from_last c (pre @ c # suf) = c # suf"
proof -
  have "takeWhile (\<lambda>x. x \<noteq> c) (rev suf @ c # rev pre) =
          rev suf @ takeWhile (\<lambda>x. x \<noteq> c) (c # rev pre)"
    by (rule takeWhile_append2) (use assms in auto)
  then show ?thesis
    by (simp add: from_last_def)
qed

lemma trimErrorHost_split:
  assumes "CHR '':'' \<notin> set suf"
  shows "trimErrorHost (errors_New (pre @ CHR '':'' # suf)) = Inr (errors_New (CHR '':'' # suf))"
  using LastIndex_last [OF assms, of pre]
  by (simp add: trimErrorHost_def slice_def)

lemma trimErrorHost_colon:
  assumes "CHR '':'' \<in> set (Error err)"
  shows "trimErrorHost err = Inr (errors_New (from_last (CHR '':'') (Error err)))"
proof -
  obtain pre suf where s: "Error err = pre @ CHR '':'' # suf" and n: "CHR '':'' \<notin> set suf"
    using split_list_last [OF assms] by blast
  have "err = errors_New (pre @ CHR '':'' # suf)"
    using s by (cases err) simp
  then show ?thesis
    using trimErrorHost_split [OF n, of pre] from_last_split [OF n, of pre] by simp
qed

lemma trimErrorHost_no_colon:
  assumes "CHR '':'' \<notin> set (Error err)"
  shows "trimErrorHost err = Inl slice_bounds_out_of_range"
  using LastIndex_absent [OF assms]
  by (simp add: trimErrorHost_def slice_def)

lemma trimErrorHost_reference:
  assumes "CHR '':'' \<in> set (Error err)"
  shows "trimErrorHost err = Inr (errors_New (trim_reference (Error err)))"
  using trimErrorHost_colon [OF assms] assms by (simp add: trim_reference_def)

subsection \<open>The two loops over library results\<close>

lemma compareStrings_loop_append:
  "compareStrings_loop result diffs = result @ compareStrings_loop [] diffs"
proof (induction diffs arbitrary: result)
  case Nil
  show ?case by simp
next
  case (Cons element diffs)
  show ?case
    using Cons.IH [of "result @ [\<lparr>Text = dmp_Text element, Type = Insert\<rparr>]"]
      Cons.IH [of "result @ [\<lparr>Text = dmp_Text element, Type = Delete\<rparr>]"]
      Cons.IH [of "[\<lparr>Text = dmp_Text element, Type = Insert\<rparr>]"]
      Cons.IH [of "[\<lparr>Text = dmp_Text element, Type = Delete\<rparr>]"]
      Cons.IH [of result]
    by simp
qed

lemma compareStrings_loop_filter:
  "compareStrings_loop [] diffs =
     map (\<lambda>d. \<lparr>Text = dmp_Text d, Type = (if dmp_Type d = DiffInsert then Insert else Delete)\<rparr>)
       (filter (\<lambda>d. dmp_Type d \<noteq> DiffEqual) diffs)"
proof (induction diffs)
  case Nil
  show ?case by simp
next
  case (Cons element diffs)
  show ?case
    using Cons.IH by (cases "dmp_Type element")
      (simp_all add: compareStrings_loop_append [of "[d]" for d])
qed

lemma compareHTMLs_loop_append:
  "compareHTMLs_loop textDiffer gq aDoc bDoc result elements =
     result @ compareHTMLs_loop textDiffer gq aDoc bDoc [] elements"
proof (induction elements arbitrary: result)
  case Nil
  show ?case by simp
next
  case (Cons element elements)
  let ?part = "compareStrings textDiffer (Selection_Text gq (Find gq aDoc element))
                 (Selection_Text gq (Find gq bDoc element))"
  show ?case
    using Cons.IH [of "result @ ?part"] Cons.IH [of ?part] by (simp add: Let_def)
qed

lemma compareHTMLs_loop_concat:
  "compareHTMLs_loop textDiffer gq aDoc bDoc [] elements =
     concat (map (\<lambda>element. compareStrings textDiffer (Selection_Text gq (Find gq aDoc element))
                 (Selection_Text gq (Find gq bDoc element))) elements)"
proof (induction elements)
  case Nil
  show ?case by simp
next
  case (Cons element elements)
  show ?case
    using Cons.IH
      compareHTMLs_loop_append [of textDiffer gq aDoc bDoc
        "compareStrings textDiffer (Selection_Text gq (Find gq aDoc element))
                 (Selection_Text gq (Find gq bDoc element))" elements]
    by (simp add: Let_def)
qed

subsection \<open>Compare on a fetch error with no colon\<close>

lemma Compare_panics_without_colon:
  assumes "CHR '':'' \<notin> set (Error err)"
  shows "Compare textDiffer jsonLib gq (Inl err) (Inr resp) compareElements =
           Inl slice_bounds_out_of_range"
    and "Compare textDiffer jsonLib gq (Inr resp) (Inl err) compareElements =
           Inl slice_bounds_out_of_range"
    and "Compare textDiffer jsonLib gq (Inl err) (Inl bErr) compareElements =
           Inl slice_bounds_out_of_range"
  using trimErrorHost_no_colon [OF assms] by simp_all

section \<open>Claims\<close>

text \<open>
  C6. For every list of rendered diff lines, getDiffsFromStrings keeps exactly the lines
  that begin with \<open>+\<close> or \<open>-\<close>, in their original order, and drops every other line; from
  each kept line it strips exactly one leading character (the prefix) and tags the rest
  Insert for \<open>+\<close> and Delete for \<open>-\<close>.
\<close>

theorem getDiffsFromStrings_keeps_prefixed_lines:
  "getDiffsFromStrings lines =
     map (\<lambda>line. \<lparr>Text = tl line, Type = (if hd line = CHR ''+'' then Insert else Delete)\<rparr>)
       (filter (\<lambda>line. HasPrefix line ''+'' \<or> HasPrefix line ''-'') lines)"
proof (induction lines)
  case Nil
  show ?case by (simp add: getDiffsFromStrings_Nil)
next
  case (Cons line lines)
  have "HasPrefix line ''+'' \<Longrightarrow> hd line = CHR ''+''"
    by (auto simp: HasPrefix_single)
  moreover have "HasPrefix line ''-'' \<Longrightarrow> hd line \<noteq> CHR ''+''"
    by (auto simp: HasPrefix_single)
  ultimately show ?case
    using Cons.IH by (auto simp: getDiffsFromStrings_Cons)
qed

text \<open>
  C1. When exactly one fetch fails, Compare returns exactly two fragments and a nil error:
  the trimmed error message of the failing side and the raw status text of the other
  side; side A's fragment is the Delete and side B's the Insert, whichever of them failed.
  The trimmed message is what trimErrorHost returns, the message from its last \<open>:\<close> on.
  The failing fetch's message is one with a \<open>:\<close> in it, as every error of
  \<^verbatim>\<open>http.Get\<close> is (a \<^verbatim>\<open>*url.Error\<close>, whose text is \<^verbatim>\<open>Op URL: Err\<close>).
\<close>

theorem Compare_one_fetch_failed:
  assumes "CHR '':'' \<in> set (Error err)"
  shows "trimErrorHost err = Inr (errors_New (trim_reference (Error err)))
     \<and> Compare textDiffer jsonLib gq (Inl err) (Inr resp) compareElements =
         Inr ([\<lparr>Text = trim_reference (Error err), Type = Delete\<rparr>,
               \<lparr>Text = Status resp, Type = Insert\<rparr>], None)
     \<and> Compare textDiffer jsonLib gq (Inr resp) (Inl err) compareElements =
         Inr ([\<lparr>Text = Status resp, Type = Delete\<rparr>,
               \<lparr>Text = trim_reference (Error err), Type = Insert\<rparr>], None)"
  using trimErrorHost_reference [OF assms] by simp

theorem Compare_one_fetch_failed_witness:
  "CHR '':'' \<in> set (Error (errors_New
       ''Get http://a.test/: dial tcp 127.0.0.1:80: connection refused''))
   \<and> Compare whole_text_differ (fixed_json []) no_match_query
         (Inl (errors_New ''Get http://a.test/: dial tcp 127.0.0.1:80: connection refused''))
         (Inr \<lparr>Status = ''200 OK'', Body = Inr ''{}''\<rparr>) None =
       Inr ([\<lparr>Text = '': connection refused'', Type = Delete\<rparr>,
             \<lparr>Text = ''200 OK'', Type = Insert\<rparr>], None)
   \<and> Compare whole_text_differ (fixed_json []) no_match_query
         (Inr \<lparr>Status = ''200 OK'', Body = Inr ''{}''\<rparr>)
         (Inl (errors_New ''Get http://a.test/: dial tcp 127.0.0.1:80: connection refused''))
         None =
       Inr ([\<lparr>Text = ''200 OK'', Type = Delete\<rparr>,
             \<lparr>Text = '': connection refused'', Type = Insert\<rparr>], None)"
proof -
  let ?e = "errors_New ''Get http://a.test/: dial tcp 127.0.0.1:80: connection refused''"
  have h: "CHR '':'' \<in> set (Error ?e)" by simp
  have t: "trim_reference (Error ?e) = '': connection refused''"
    by (simp add: trim_reference_def from_last_def)
  show ?thesis
    using h t Compare_one_fetch_failed [OF h, of whole_text_differ "fixed_json []"
        no_match_query "\<lparr>Status = ''200 OK'', Body = Inr ''{}''\<rparr>" None]
    by simp
qed

text \<open>
  C2. On every error message that contains a \<open>:\<close>, as every error of \<^verbatim>\<open>http.Get\<close>
  does, trimErrorHost returns and agrees with the reference: its result is the message
  from its last \<open>:\<close> on, that \<open>:\<close> included, so that
  \<open>dial tcp 127.0.0.1:80: connection refused\<close> becomes \<open>: connection refused\<close>.
  Nothing is stated for a message with no \<open>:\<close>.
\<close>

theorem trimErrorHost_from_last_colon:
  assumes "CHR '':'' \<in> set (Error err)"
  shows "trimErrorHost err = Inr (errors_New (trim_reference (Error err)))
     \<and> (\<exists>pre suf. Error err = pre @ CHR '':'' # suf \<and> CHR '':'' \<notin> set suf
           \<and> trimErrorHost err = Inr (errors_New (CHR '':'' # suf)))"
proof -
  obtain pre suf where s: "Error err = pre @ CHR '':'' # suf" and n: "CHR '':'' \<notin> set suf"
    using split_list_last [OF assms] by blast
  have "err = errors_New (pre @ CHR '':'' # suf)"
    using s by (cases err) simp
  then have "trimErrorHost err = Inr (errors_New (CHR '':'' # suf))"
    using trimErrorHost_split [OF n, of pre] by simp
  with s n show ?thesis
    using trimErrorHost_reference [OF assms] by blast
qed

theorem trimErrorHost_from_last_colon_witness:
  "CHR '':'' \<in> set (Error (errors_New ''dial tcp 127.0.0.1:80: connection refused''))
   \<and> trimErrorHost (errors_New ''dial tcp 127.0.0.1:80: connection refused'') =
       Inr (errors_New '': connection refused'')"
proof -
  let ?e = "errors_New ''dial tcp 127.0.0.1:80: connection refused''"
  have h: "CHR '':'' \<in> set (Error ?e)" by simp
  have t: "trim_reference (Error ?e) = '': connection refused''"
    by (simp add: trim_reference_def from_last_def)
  show ?thesis
    using h t trimErrorHost_from_last_colon [OF h] by simp
qed

text \<open>
  The specification's reference also covers a message with no \<open>:\<close>: it returns such a
  message unchanged, and the function is said to be total. Called on such a message the
  code does not return: \<^verbatim>\<open>strings.LastIndex\<close> is \<open>-1\<close> and the slice
  expression \<^verbatim>\<open>errText[-1:len(errText)]\<close> panics.
\<close>

theorem trimErrorHost_without_colon_counterexample:
  "trimErrorHost (errors_New ''connection refused'') = Inl slice_bounds_out_of_range
   \<and> trim_reference ''connection refused'' = ''connection refused''
   \<and> trimErrorHost (errors_New ''connection refused'') \<noteq>
       Inr (errors_New (trim_reference ''connection refused''))"
  by (simp add: trimErrorHost_def slice_def trim_reference_def HasPrefix_def)

text \<open>
  C3. When both fetches fail, Compare returns a nil error together with the whole output
  of compareStrings (the text diff) on the two trimmed error messages, whatever its
  length. Both messages have a \<open>:\<close> in them, as every error of \<^verbatim>\<open>http.Get\<close> has.
\<close>

theorem Compare_both_fetches_failed:
  assumes "CHR '':'' \<in> set (Error aErr)" and "CHR '':'' \<in> set (Error bErr)"
  shows "Compare textDiffer jsonLib gq (Inl aErr) (Inl bErr) compareElements =
         Inr (compareStrings textDiffer (trim_reference (Error aErr))
                (trim_reference (Error bErr)), None)"
  using trimErrorHost_reference [OF assms(1)] trimErrorHost_reference [OF assms(2)] by simp

theorem Compare_both_fetches_failed_witness:
  "CHR '':'' \<in> set (Error (errors_New ''Get http://a.test/: connection refused''))
   \<and> CHR '':'' \<in> set (Error (errors_New ''Get http://b.test/: connection refused''))
   \<and> Compare whole_text_differ (fixed_json []) no_match_query
         (Inl (errors_New ''Get http://a.test/: connection refused''))
         (Inl (errors_New ''Get http://b.test/: connection refused'')) None =
       Inr ([], None)
   \<and> Compare whole_text_differ (fixed_json []) no_match_query
         (Inl (errors_New ''Get http://a.test/: connection refused''))
         (Inl (errors_New ''Get http://b.test/: no such host'')) (Some [''h1'']) =
       Inr ([\<lparr>Text = '': connection refused'', Type = Delete\<rparr>,
             \<lparr>Text = '': no such host'', Type = Insert\<rparr>], None)"
proof -
  let ?a = "errors_New ''Get http://a.test/: connection refused''"
  let ?b = "errors_New ''Get http://b.test/: connection refused''"
  let ?c = "errors_New ''Get http://b.test/: no such host''"
  have a: "CHR '':'' \<in> set (Error ?a)" and b: "CHR '':'' \<in> set (Error ?b)"
    and c: "CHR '':'' \<in> set (Error ?c)" by simp_all
  have ta: "trim_reference (Error ?a) = '': connection refused''"
    and tb: "trim_reference (Error ?b) = '': connection refused''"
    and tc: "trim_reference (Error ?c) = '': no such host''"
    by (simp_all add: trim_reference_def from_last_def)
  show ?thesis
    using a b ta tb tc
      Compare_both_fetches_failed [OF a b, of whole_text_differ "fixed_json []" no_match_query None]
      Compare_both_fetches_failed [OF a c, of whole_text_differ "fixed_json []" no_match_query "Some [''h1'']"]
    by (simp add: compareStrings_def Insert_def Delete_def)
qed

text \<open>
  C10. When both fetches succeed, Compare takes the JSON path (compareJSONs) only for the
  nil selector list; every non-nil list, the empty one included, takes the HTML path
  (compareHTMLs), whose result is the same whatever the JSON library is. For the empty
  non-nil list the loop runs zero times: once both bodies parse as HTML documents, the
  result is the empty fragment sequence with a nil error.
\<close>

theorem Compare_selects_JSON_only_for_nil:
  assumes "NewDocumentFromResponse gq aResp = Inr aDoc"
    and "NewDocumentFromResponse gq bResp = Inr bDoc"
  shows "Compare textDiffer jsonLib gq (Inr aResp) (Inr bResp) None =
           Inr (compareJSONs jsonLib aResp bResp)
     \<and> Compare textDiffer jsonLib gq (Inr aResp) (Inr bResp) (Some elements) =
           Inr (compareHTMLs textDiffer gq aResp bResp elements)
     \<and> Compare textDiffer jsonLib gq (Inr aResp) (Inr bResp) (Some elements) =
           Compare textDiffer jsonLib' gq (Inr aResp) (Inr bResp) (Some elements)
     \<and> Compare textDiffer jsonLib gq (Inr aResp) (Inr bResp) (Some []) = Inr ([], None)"
  using assms by (simp add: compareHTMLs_def)

theorem Compare_selects_JSON_only_for_nil_witness:
  "NewDocumentFromResponse no_match_query \<lparr>Status = ''200 OK'', Body = Inr ''{a:1}''\<rparr> = Inr ()
   \<and> Compare whole_text_differ (fixed_json ''-x'') no_match_query
        (Inr \<lparr>Status = ''200 OK'', Body = Inr ''{a:1}''\<rparr>)
        (Inr \<lparr>Status = ''200 OK'', Body = Inr ''{a:2}''\<rparr>) (Some []) = Inr ([], None)
   \<and> Compare whole_text_differ (fixed_json ''-x'') no_match_query
        (Inr \<lparr>Status = ''200 OK'', Body = Inr ''{a:1}''\<rparr>)
        (Inr \<lparr>Status = ''200 OK'', Body = Inr ''{a:2}''\<rparr>) None =
       Inr ([\<lparr>Text = ''x'', Type = Delete\<rparr>], None)"
proof -
  let ?a = "\<lparr>Status = ''200 OK'', Body = Inr ''{a:1}''\<rparr>"
  let ?b = "\<lparr>Status = ''200 OK'', Body = Inr ''{a:2}''\<rparr>"
  have a: "NewDocumentFromResponse no_match_query ?a = Inr ()"
    and b: "NewDocumentFromResponse no_match_query ?b = Inr ()" by simp_all
  have j: "compareJSONs (fixed_json ''-x'') ?a ?b = ([\<lparr>Text = ''x'', Type = Delete\<rparr>], None)"
    by (simp add: compareJSONs_def getDiffsFromStrings_def HasPrefix_def)
  show ?thesis
    using a j Compare_selects_JSON_only_for_nil [OF a b, of whole_text_differ "fixed_json ''-x''" "[]" "fixed_json ''-x''"]
    by simp
qed

text \<open>
  C7. For every string \<open>s\<close>, compareStrings of \<open>s\<close> against itself returns the empty
  fragment sequence. For any two texts the loop drops every equal fragment of the
  library's edit script (\<^verbatim>\<open>DiffMain\<close>, then \<^verbatim>\<open>DiffCleanupSemantic\<close>) and keeps the
  insertions and deletions in order; and the script that the library gives for two equal
  texts holds equal fragments only. The second is the library's part and is the
  hypothesis.
\<close>

theorem compareStrings_same_text_empty:
  assumes "\<forall>d \<in> set (DiffCleanupSemantic textDiffer (DiffMain textDiffer s s True)).
             dmp_Type d = DiffEqual"
  shows "compareStrings textDiffer a b =
           map (\<lambda>d. \<lparr>Text = dmp_Text d,
                      Type = (if dmp_Type d = DiffInsert then Insert else Delete)\<rparr>)
             (filter (\<lambda>d. dmp_Type d \<noteq> DiffEqual)
                (DiffCleanupSemantic textDiffer (DiffMain textDiffer a b True)))
     \<and> compareStrings textDiffer s s = []"
  using assms by (simp add: compareStrings_def compareStrings_loop_filter filter_empty_conv)

theorem compareStrings_same_text_empty_witness:
  "DiffCleanupSemantic whole_text_differ
      (DiffMain whole_text_differ ''200 OK'' ''200 OK'' True) =
     [\<lparr>dmp_Type = DiffEqual, dmp_Text = ''200 OK''\<rparr>]
   \<and> compareStrings whole_text_differ ''200 OK'' ''200 OK'' = []"
  using compareStrings_same_text_empty [of whole_text_differ "''200 OK''" "[]" "[]"] by simp

text \<open>
  C9. In compareHTMLs, once both bodies parse, no selector makes the comparison fail:
  each selector contributes its own fragments, in selector order, and the error is nil.
  A selector that matches no element on one side gives the empty string for that side,
  so its fragments are the text diff of the empty text against the other side's text;
  a selector that matches nothing on both sides contributes no fragment. The library's
  parts are hypotheses: \<^verbatim>\<open>Text\<close> of a selection of no element is the empty string, and
  the edit script for two empty texts holds no insertion and no deletion.
\<close>

theorem compareHTMLs_selector_without_match:
  assumes aDoc: "NewDocumentFromResponse gq aResp = Inr aDoc"
    and bDoc: "NewDocumentFromResponse gq bResp = Inr bDoc"
    and empty_text: "\<forall>sel. Selection_Length gq sel = 0 \<longrightarrow> Selection_Text gq sel = []"
    and empty_diff: "\<forall>d \<in> set (DiffCleanupSemantic textDiffer (DiffMain textDiffer [] [] True)).
                       dmp_Type d = DiffEqual"
  shows "compareHTMLs textDiffer gq aResp bResp elements =
           (concat (map (\<lambda>element. fst (compareHTMLs textDiffer gq aResp bResp [element]))
              elements), None)
     \<and> (Selection_Length gq (Find gq aDoc element) = 0 \<longrightarrow>
          compareHTMLs textDiffer gq aResp bResp [element] =
            (compareStrings textDiffer [] (Selection_Text gq (Find gq bDoc element)), None))
     \<and> (Selection_Length gq (Find gq bDoc element) = 0 \<longrightarrow>
          compareHTMLs textDiffer gq aResp bResp [element] =
            (compareStrings textDiffer (Selection_Text gq (Find gq aDoc element)) [], None))
     \<and> (Selection_Length gq (Find gq aDoc element) = 0
          \<and> Selection_Length gq (Find gq bDoc element) = 0 \<longrightarrow>
          compareHTMLs textDiffer gq aResp bResp [element] = ([], None))"
proof -
  have one: "compareHTMLs textDiffer gq aResp bResp [e] =
      (compareStrings textDiffer (Selection_Text gq (Find gq aDoc e))
         (Selection_Text gq (Find gq bDoc e)), None)" for e
    using aDoc bDoc by (simp add: compareHTMLs_def Let_def)
  have all: "compareHTMLs textDiffer gq aResp bResp elements =
      (concat (map (\<lambda>element. compareStrings textDiffer (Selection_Text gq (Find gq aDoc element))
                 (Selection_Text gq (Find gq bDoc element))) elements), None)"
    using aDoc bDoc by (simp add: compareHTMLs_def compareHTMLs_loop_concat)
  have none: "compareStrings textDiffer [] [] = []"
    using empty_diff by (simp add: compareStrings_def compareStrings_loop_filter filter_empty_conv)
  show ?thesis
    using empty_text none by (simp add: one all)
qed

theorem compareHTMLs_selector_without_match_witness:
  "NewDocumentFromResponse one_title_query \<lparr>Status = ''200 OK'', Body = Inr []\<rparr> = Inr []
   \<and> NewDocumentFromResponse one_title_query \<lparr>Status = ''200 OK'', Body = Inr ''Hi''\<rparr>
       = Inr ''Hi''
   \<and> Selection_Length one_title_query (Find one_title_query [] ''h1'') = 0
   \<and> Selection_Length one_title_query (Find one_title_query ''Hi'' ''h1'') = 1
   \<and> compareHTMLs whole_text_differ one_title_query
        \<lparr>Status = ''200 OK'', Body = Inr []\<rparr> \<lparr>Status = ''200 OK'', Body = Inr ''Hi''\<rparr>
        [''h1''] = ([\<lparr>Text = ''Hi'', Type = Insert\<rparr>], None)
   \<and> compareHTMLs whole_text_differ one_title_query
        \<lparr>Status = ''200 OK'', Body = Inr []\<rparr> \<lparr>Status = ''200 OK'', Body = Inr ''Hi''\<rparr>
        [''p''] = ([], None)"
proof -
  let ?a = "\<lparr>Status = ''200 OK'', Body = Inr []\<rparr>"
  let ?b = "\<lparr>Status = ''200 OK'', Body = Inr ''Hi''\<rparr>"
  have a: "NewDocumentFromResponse one_title_query ?a = Inr []"
    and b: "NewDocumentFromResponse one_title_query ?b = Inr ''Hi''" by simp_all
  have t: "\<forall>sel. Selection_Length one_title_query sel = 0 \<longrightarrow>
             Selection_Text one_title_query sel = []" by simp
  have d: "\<forall>d \<in> set (DiffCleanupSemantic whole_text_differ
             (DiffMain whole_text_differ [] [] True)). dmp_Type d = DiffEqual" by simp
  have s: "compareStrings whole_text_differ [] ''Hi'' = [\<lparr>Text = ''Hi'', Type = Insert\<rparr>]"
    by (simp add: compareStrings_def)
  have e: "compareStrings whole_text_differ [] [] = []"
    by (simp add: compareStrings_def)
  show ?thesis
    using s e compareHTMLs_selector_without_match [OF a b t d, of "[]" "''h1''"]
      compareHTMLs_selector_without_match [OF a b t d, of "[]" "''p''"]
    by simp
qed

text \<open>
  C4. compareJSONs returns a non-nil error and no fragment whenever reading either body
  fails or either body is malformed JSON. That the JSON differ's \<^verbatim>\<open>Compare\<close> reports an
  error for a malformed body on either side is the library's part and is the hypothesis
  \<open>rejects\<close>, for whatever \<open>wellformed\<close> is; that the error of a read or of the differ ends
  the comparison with no fragments is the package's part.
\<close>

theorem compareJSONs_malformed_or_unreadable:
  assumes rejects: "\<forall>x y. \<not> wellformed x \<or> \<not> wellformed y \<longrightarrow>
                      (\<exists>e. Differ_Compare jsonLib x y = Inl e)"
    and bad: "(\<exists>e. Body aResp = Inl e) \<or> (\<exists>e. Body bResp = Inl e)
              \<or> (\<exists>x y. Body aResp = Inr x \<and> Body bResp = Inr y
                    \<and> (\<not> wellformed x \<or> \<not> wellformed y))"
  shows "\<exists>err. compareJSONs jsonLib aResp bResp = ([], Some err)"
proof (cases "Body aResp")
  case (Inl e)
  then show ?thesis by (simp add: compareJSONs_def)
next
  case a: (Inr x)
  show ?thesis
  proof (cases "Body bResp")
    case (Inl e)
    then show ?thesis using a by (simp add: compareJSONs_def)
  next
    case b: (Inr y)
    from bad a b have "\<not> wellformed x \<or> \<not> wellformed y" by simp
    with rejects obtain e where "Differ_Compare jsonLib x y = Inl e" by blast
    then show ?thesis using a b by (simp add: compareJSONs_def)
  qed
qed

theorem compareJSONs_malformed_or_unreadable_witness:
  "\<not> starts_with_brace ''<html>''
   \<and> (\<exists>err. compareJSONs (object_json ''-x'')
         \<lparr>Status = ''200 OK'', Body = Inr ''{}''\<rparr>
         \<lparr>Status = ''200 OK'', Body = Inr ''<html>''\<rparr> = ([], Some err))
   \<and> (\<exists>err. compareJSONs (object_json ''-x'')
         \<lparr>Status = ''200 OK'', Body = Inl (errors_New ''unexpected EOF'')\<rparr>
         \<lparr>Status = ''200 OK'', Body = Inr ''{}''\<rparr> = ([], Some err))"
proof -
  have r: "\<forall>x y. \<not> starts_with_brace x \<or> \<not> starts_with_brace y \<longrightarrow>
             (\<exists>e. Differ_Compare (object_json ''-x'') x y = Inl e)" by simp
  have n: "\<not> starts_with_brace ''<html>''" by (simp add: HasPrefix_def)
  have b1: "(\<exists>e. Body \<lparr>Status = ''200 OK'', Body = Inr ''{}''\<rparr> = Inl e)
      \<or> (\<exists>e. Body \<lparr>Status = ''200 OK'', Body = Inr ''<html>''\<rparr> = Inl e)
      \<or> (\<exists>x y. Body \<lparr>Status = ''200 OK'', Body = Inr ''{}''\<rparr> = Inr x
            \<and> Body \<lparr>Status = ''200 OK'', Body = Inr ''<html>''\<rparr> = Inr y
            \<and> (\<not> starts_with_brace x \<or> \<not> starts_with_brace y))"
    using n by simp
  have b2: "(\<exists>e. Body \<lparr>Status = ''200 OK'', Body = Inl (errors_New ''unexpected EOF'')\<rparr> = Inl e)
      \<or> (\<exists>e. Body \<lparr>Status = ''200 OK'', Body = Inr ''{}''\<rparr> = Inl e)
      \<or> (\<exists>x y. Body \<lparr>Status = ''200 OK'', Body = Inl (errors_New ''unexpected EOF'')\<rparr> = Inr x
            \<and> Body \<lparr>Status = ''200 OK'', Body = Inr ''{}''\<rparr> = Inr y
            \<and> (\<not> starts_with_brace x \<or> \<not> starts_with_brace y))"
    by simp
  show ?thesis
    using n compareJSONs_malformed_or_unreadable [OF r b1]
      compareJSONs_malformed_or_unreadable [OF r b2]
    by blast
qed

end
